theory Spec2Isabelle
  imports Main "HOL-Library.Word"
begin

section \<open>Package dock: the docked-application list manager\<close>

subsection \<open>String-slice helpers\<close>

text \<open>
  Modelled from the spec: \<open>isStrInSlice\<close> is a helper of package dock that
  docked_app_manager.go calls and whose file is not among the sources. The spec words the
  query it serves as a "pure lookup against the cached DockedAppList": the loop over the
  slice that looks for the string.
\<close>

primrec isStrInSlice :: "string \<Rightarrow> string list \<Rightarrow> bool" where
  "isStrInSlice s [] = False"
| "isStrInSlice s (x # xs) = (if x = s then True else isStrInSlice s xs)"

text \<open>
  Modelled from the spec: \<open>strSliceEqual\<close> is a helper of package dock whose file is not
  among the sources. The spec has the two lists compared "element-by-element in order".
\<close>

fun strSliceEqual :: "string list \<Rightarrow> string list \<Rightarrow> bool" where
  "strSliceEqual [] [] = True"
| "strSliceEqual (x # xs) (y # ys) = (if x = y then strSliceEqual xs ys else False)"
| "strSliceEqual _ _ = False"

text \<open>
  Modelled from the spec: \<open>uniqStrSlice\<close> is a helper of package dock whose file is not
  among the sources. The spec has it "deduplicate preserving first-occurrence order": the
  loop over the slice that appends to a new slice each string not yet in it
  (\<open>uniqLoop\<close> is that loop, from the new slice so far).
\<close>

fun uniqLoop :: "string list \<Rightarrow> string list \<Rightarrow> string list" where
  "uniqLoop newSlice [] = newSlice"
| "uniqLoop newSlice (e # es) =
     uniqLoop (if isStrInSlice e newSlice then newSlice else newSlice @ [e]) es"

definition uniqStrSlice :: "string list \<Rightarrow> string list" where
  "uniqStrSlice strs = uniqLoop [] strs"

subsection \<open>Data\<close>

definition dockSchema :: string where
  "dockSchema = ''com.deepin.dde.dock''"

definition settingKeyDockedApps :: string where
  "settingKeyDockedApps = ''docked-apps''"

text \<open>A \<open>*gio.Settings\<close> handle; the nil pointer is \<open>None\<close> of \<open>Settings option\<close>.\<close>

datatype Settings = SettingsHandle string

text \<open>An application descriptor, of which the manager only reads the id (\<open>GetId\<close>).\<close>

datatype AppInfo = AppInfo (GetId: string)

record AppEntry =
  appInfo :: "AppInfo option"

record dockedItemInfo =
  Name :: string
  Icon :: string
  Exec :: string

text \<open>
  The legacy key file (\<open>glib.KeyFile\<close>) as the typed views its getters give: each getter
  returns \<open>None\<close> where glib returns an error (group or key missing, value not parsable).
\<close>

record KeyFile =
  GetBoolean :: "string \<Rightarrow> string \<Rightarrow> bool option"
  GetStringList :: "string \<Rightarrow> string \<Rightarrow> string list option"
  GetString :: "string \<Rightarrow> string \<Rightarrow> string option"

definition SetBoolean :: "string \<Rightarrow> string \<Rightarrow> bool \<Rightarrow> KeyFile \<Rightarrow> KeyFile" where
  "SetBoolean g k b conf =
     (let raw = (if b then ''true'' else ''false'') in
      conf\<lparr>GetBoolean := (\<lambda>g' k'. if g' = g \<and> k' = k then Some b else GetBoolean conf g' k'),
           GetStringList :=
             (\<lambda>g' k'. if g' = g \<and> k' = k then Some [raw] else GetStringList conf g' k'),
           GetString := (\<lambda>g' k'. if g' = g \<and> k' = k then Some raw else GetString conf g' k')\<rparr>)"

text \<open>The file \<open>dock/apps.ini\<close> under the user's configuration directory.\<close>

record LegacyFile =
  content :: KeyFile
  mode :: nat

datatype LegacyOp =
    OpLoadFromFile
  | OpGetBoolean string string
  | OpGetStringList string string
  | OpGetString string string
  | OpLstat
  | OpWriteFile

datatype BackendOp = SetStrv string "string list" | SettingsSync

text \<open>
  Modelled from the spec: the DockManager (the spec's DockState) is a type of package
  dock whose file is not among the sources. The spec gives it the current docked ids
  (\<open>CurrentDockedIds\<close>) and makes it "the authority on whether the operation is valid
  (e.g., app descriptor must resolve, or explicit metadata must be usable to synthesize
  one)": \<open>resolvable\<close> is that decision.
\<close>

record DockManager =
  dockedIds :: "string list"
  resolvable :: "string \<Rightarrow> string \<Rightarrow> string \<Rightarrow> string \<Rightarrow> bool"

text \<open>
  Everything outside the manager object: the settings backend (whether
  \<open>gio.NewSettings\<close> yields a handle, the sequence stored under the key docked-apps, and
  the calls made on it), the legacy file with the outcome of serialising and writing it,
  the installed applications (\<open>NewAppInfo\<close> gives a descriptor), the scratch desktop
  files created, the signals emitted over D-Bus, and the DockManager.
\<close>

record World =
  settingsAvailable :: bool
  persisted :: "string list"
  backendLog :: "BackendOp list"
  legacyFile :: "LegacyFile option"
  toDataOk :: bool
  writeFileOk :: bool
  legacyLog :: "LegacyOp list"
  installed :: "string \<Rightarrow> bool"
  scratchFiles :: "(string \<times> dockedItemInfo) list"
  signals :: "(string \<times> string list) list"
  dockManager :: DockManager

record DockedAppManager =
  settings :: "Settings option"
  dockedAppList :: "string list"

text \<open>
  The one fault of the model: a method called through the nil settings handle. The source
  calls \<open>m.settings.SetStrv\<close> with no guard; the model stops there.
\<close>

datatype fault = NilSettingsHandle

subsection \<open>The settings backend and the legacy store\<close>

definition NewSettings :: "string \<Rightarrow> World \<Rightarrow> Settings option" where
  "NewSettings schema w = (if settingsAvailable w then Some (SettingsHandle schema) else None)"

definition GetStrv :: "string \<Rightarrow> World \<Rightarrow> string list" where
  "GetStrv key w = persisted w"

definition logLegacy :: "LegacyOp \<Rightarrow> World \<Rightarrow> World" where
  "logLegacy op w = w\<lparr>legacyLog := legacyLog w @ [op]\<rparr>"

definition Lstat :: "World \<Rightarrow> nat option" where
  "Lstat w = map_option mode (legacyFile w)"

text \<open>\<open>ioutil.WriteFile\<close>: a failed write is taken to leave the file as it was.\<close>

definition WriteFile :: "KeyFile \<Rightarrow> nat \<Rightarrow> World \<Rightarrow> World" where
  "WriteFile conf perm w =
     (if writeFileOk w then w\<lparr>legacyFile := Some \<lparr>content = conf, mode = perm\<rparr>\<rparr> else w)"

definition getStringOrEmpty :: "KeyFile \<Rightarrow> string \<Rightarrow> string \<Rightarrow> string" where
  "getStringOrEmpty conf g k = (case GetString conf g k of None \<Rightarrow> [] | Some s \<Rightarrow> s)"

text \<open>
  Modelled from the spec: \<open>createScratchDesktopFile\<close> is a function of package dock whose
  file is not among the sources; it "synthesize[s] a minimal launchable descriptor from
  the legacy DisplayName/IconRef/CommandLine". The model records the call.
\<close>

definition createScratchDesktopFile ::
  "string \<Rightarrow> string \<Rightarrow> string \<Rightarrow> string \<Rightarrow> World \<Rightarrow> World" where
  "createScratchDesktopFile ident title icon exec w =
     w\<lparr>scratchFiles := scratchFiles w @ [(ident, \<lparr>Name = title, Icon = icon, Exec = exec\<rparr>)]\<rparr>"

text \<open>The persisted migration flag: key \<open>inited\<close> of group \<open>__Config__\<close> in the legacy file.\<close>

definition MigrationFlag :: "World \<Rightarrow> bool option" where
  "MigrationFlag w =
     (case legacyFile w of
        None \<Rightarrow> None
      | Some f \<Rightarrow> GetBoolean (content f) ''__Config__'' ''inited'')"

subsection \<open>The manager's methods\<close>

definition emitSignal :: "DockedAppManager \<Rightarrow> string \<Rightarrow> string list \<Rightarrow> World \<Rightarrow> World" where
  "emitSignal m name values w = w\<lparr>signals := signals w @ [(name, values)]\<rparr>"

definition saveAppList :: "DockedAppManager \<Rightarrow> string list \<Rightarrow> World \<Rightarrow> fault + World" where
  "saveAppList m apps w =
     (case settings m of
        None \<Rightarrow> Inl NilSettingsHandle
      | Some h \<Rightarrow>
          Inr (w\<lparr>persisted := apps,
                 backendLog := backendLog w @ [SetStrv settingKeyDockedApps apps, SettingsSync]\<rparr>))"

text \<open>
  Modelled from the spec: \<open>getDockedAppList\<close> is a method of the DockManager, whose file
  is not among the sources; it is the spec's \<open>CurrentDockedIds\<close>.
\<close>

definition getDockedAppList :: "DockManager \<Rightarrow> string list" where
  "getDockedAppList dm = dockedIds dm"

definition saveDockedAppList ::
  "DockedAppManager \<Rightarrow> World \<Rightarrow> fault + (DockedAppManager \<times> World)" where
  "saveDockedAppList m w =
     (let apps = getDockedAppList (dockManager w) in
      if \<not> strSliceEqual (dockedAppList m) apps then
        (case saveAppList m apps w of
           Inl e \<Rightarrow> Inl e
         | Inr w' \<Rightarrow> Inr (m\<lparr>dockedAppList := apps\<rparr>, w'))
      else Inr (m, w))"

text \<open>The loop of \<open>handleOldConfigFile\<close> over the deduplicated legacy ids.\<close>

fun migrateEntries :: "KeyFile \<Rightarrow> string list \<Rightarrow> World \<Rightarrow> World" where
  "migrateEntries conf [] w = w"
| "migrateEntries conf (ident # ids) w =
     (if installed w ident then migrateEntries conf ids w
      else
        (let exec = getStringOrEmpty conf ident ''CmdLine'';
             w1 = logLegacy (OpGetString ident ''CmdLine'') w;
             icon = getStringOrEmpty conf ident ''Icon'';
             w2 = logLegacy (OpGetString ident ''Icon'') w1;
             title = getStringOrEmpty conf ident ''Name'';
             w3 = logLegacy (OpGetString ident ''Name'') w2
         in migrateEntries conf ids (createScratchDesktopFile ident title icon exec w3)))"

definition handleOldConfigFile :: "DockedAppManager \<Rightarrow> World \<Rightarrow> fault + World" where
  "handleOldConfigFile m w =
     (let w1 = logLegacy OpLoadFromFile w in
      case legacyFile w1 of
        None \<Rightarrow> Inr w1
      | Some f \<Rightarrow>
          (let conf = content f;
               w2 = logLegacy (OpGetBoolean ''__Config__'' ''inited'') w1
           in if GetBoolean conf ''__Config__'' ''inited'' = Some True then Inr w2
              else
                (let w3 = logLegacy (OpGetStringList ''__Config__'' ''Position'') w2 in
                 case GetStringList conf ''__Config__'' ''Position'' of
                   None \<Rightarrow> Inr w3
                 | Some ids0 \<Rightarrow>
                     (let ids = uniqStrSlice ids0;
                          w4 = migrateEntries conf ids w3
                      in case saveAppList m ids w4 of
                           Inl e \<Rightarrow> Inl e
                         | Inr w5 \<Rightarrow>
                             (let conf' = SetBoolean ''__Config__'' ''inited'' True conf in
                              if \<not> toDataOk w5 then Inr w5
                              else
                                (let w6 = logLegacy OpLstat w5;
                                     perm = (case Lstat w6 of Some st \<Rightarrow> st | None \<Rightarrow> 438)
                                 in Inr (WriteFile conf' perm (logLegacy OpWriteFile w6))))))))"

definition init :: "DockedAppManager \<Rightarrow> World \<Rightarrow> fault + (DockedAppManager \<times> World)" where
  "init m w =
     (let m1 = m\<lparr>settings := NewSettings dockSchema w\<rparr> in
      if settings m1 = None then Inr (m1, w)
      else
        (case handleOldConfigFile m1 w of
           Inl e \<Rightarrow> Inl e
         | Inr w1 \<Rightarrow>
             (let m2 = m1\<lparr>dockedAppList := uniqStrSlice (GetStrv settingKeyDockedApps w1)\<rparr> in
              case saveAppList m2 (dockedAppList m2) w1 of
                Inl e \<Rightarrow> Inl e
              | Inr w2 \<Rightarrow> Inr (m2, w2))))"

definition NewDockedAppManager :: "World \<Rightarrow> fault + (DockedAppManager \<times> World)" where
  "NewDockedAppManager w = init \<lparr>settings = None, dockedAppList = []\<rparr> w"

definition DockedAppList :: "DockedAppManager \<Rightarrow> string list" where
  "DockedAppList m = dockedAppList m"

definition IsDocked :: "DockedAppManager \<Rightarrow> string \<Rightarrow> bool" where
  "IsDocked m appId = isStrInSlice appId (dockedAppList m)"

definition dockAppEntry ::
  "DockedAppManager \<Rightarrow> AppEntry \<Rightarrow> World \<Rightarrow> fault + (bool \<times> DockedAppManager \<times> World)" where
  "dockAppEntry m entry w =
     (case appInfo entry of
        None \<Rightarrow> Inr (False, m, w)
      | Some a \<Rightarrow>
          (case saveDockedAppList m w of
             Inl e \<Rightarrow> Inl e
           | Inr (m', w') \<Rightarrow> Inr (True, m', emitSignal m' ''Docked'' [GetId a] w')))"

definition undockAppEntry ::
  "DockedAppManager \<Rightarrow> string \<Rightarrow> World \<Rightarrow> fault + (bool \<times> DockedAppManager \<times> World)" where
  "undockAppEntry m appId w =
     (case saveDockedAppList m w of
        Inl e \<Rightarrow> Inl e
      | Inr (m', w') \<Rightarrow> Inr (True, m', emitSignal m' ''Undocked'' [appId] w'))"

text \<open>
  Modelled from the spec: \<open>requestDock\<close> is a method of the DockManager, whose file is not
  among the sources. By the spec a dock request is delegated to DockState, "the authority
  on whether the operation is valid"; "on success (true): re-synchronize the persisted
  list and emit", "on failure (false), e.g., the application descriptor cannot be
  resolved and no fallback metadata is usable: no persistence change, no event, returns
  false". An accepted id is appended to the docked ids (the spec's Scenario C); an id that
  is docked already is not docked again, since the docked ids hold no id twice. The
  re-synchronisation and the signal are the manager's own \<open>dockAppEntry\<close>, which is also
  what refuses an entry without descriptor.
\<close>

definition requestDock ::
  "string \<Rightarrow> string \<Rightarrow> string \<Rightarrow> string \<Rightarrow> DockedAppManager \<Rightarrow> World
     \<Rightarrow> fault + (bool \<times> DockedAppManager \<times> World)" where
  "requestDock ident title icon cmd m w =
     (let dm = dockManager w in
      if isStrInSlice ident (dockedIds dm) then Inr (False, m, w)
      else if \<not> resolvable dm ident title icon cmd then
        dockAppEntry m \<lparr>appInfo = None\<rparr> w
      else
        dockAppEntry m \<lparr>appInfo = Some (AppInfo ident)\<rparr>
          (w\<lparr>dockManager := dm\<lparr>dockedIds := dockedIds dm @ [ident]\<rparr>\<rparr>))"

text \<open>
  Modelled from the spec: \<open>undockEntryByAppId\<close> is a method of the DockManager, whose file
  is not among the sources. By the spec "undock of an id that is not currently docked is
  a no-op failure (returns false)", and on success the manager re-synchronises and emits
  \<open>Undocked\<close>, which is its own \<open>undockAppEntry\<close>.
\<close>

definition undockEntryByAppId ::
  "string \<Rightarrow> DockedAppManager \<Rightarrow> World \<Rightarrow> fault + (bool \<times> DockedAppManager \<times> World)" where
  "undockEntryByAppId ident m w =
     (let dm = dockManager w in
      if \<not> isStrInSlice ident (dockedIds dm) then Inr (False, m, w)
      else
        undockAppEntry m ident
          (w\<lparr>dockManager := dm\<lparr>dockedIds := filter (\<lambda>x. x \<noteq> ident) (dockedIds dm)\<rparr>\<rparr>))"

definition RequestDock ::
  "DockedAppManager \<Rightarrow> string \<Rightarrow> string \<Rightarrow> string \<Rightarrow> string \<Rightarrow> World
     \<Rightarrow> fault + (bool \<times> DockedAppManager \<times> World)" where
  "RequestDock m ident title icon cmd w = requestDock ident title icon cmd m w"

definition RequestUndock ::
  "DockedAppManager \<Rightarrow> string \<Rightarrow> World \<Rightarrow> fault + (bool \<times> DockedAppManager \<times> World)" where
  "RequestUndock m ident w = undockEntryByAppId ident m w"

definition Dock ::
  "DockedAppManager \<Rightarrow> string \<Rightarrow> string \<Rightarrow> string \<Rightarrow> string \<Rightarrow> World
     \<Rightarrow> fault + (bool \<times> DockedAppManager \<times> World)" where
  "Dock m ident title icon cmd w = RequestDock m ident title icon cmd w"

definition Undock ::
  "DockedAppManager \<Rightarrow> string \<Rightarrow> World \<Rightarrow> fault + (bool \<times> DockedAppManager \<times> World)" where
  "Undock m ident w = RequestUndock m ident w"

definition ReqeustDock ::
  "DockedAppManager \<Rightarrow> string \<Rightarrow> string \<Rightarrow> string \<Rightarrow> string \<Rightarrow> World
     \<Rightarrow> fault + (bool \<times> DockedAppManager \<times> World)" where
  "ReqeustDock m ident title icon cmd w = RequestDock m ident title icon cmd w"

text \<open>
  First-occurrence order in the spec's words ("contains each id exactly once, in
  first-occurrence order"): an id stays where it first occurs and its later occurrences
  are dropped. The deduplicating loop is compared with it below.
\<close>

fun firstOccurrences :: "string list \<Rightarrow> string list" where
  "firstOccurrences [] = []"
| "firstOccurrences (x # xs) = x # firstOccurrences (filter (\<lambda>y. y \<noteq> x) xs)"

text \<open>
  The ids that reach the deduplication at construction: the legacy position list when the
  migration runs (file loaded, flag not read as true, list readable), else the sequence
  held by the settings backend.
\<close>

definition legacyIds :: "World \<Rightarrow> string list option" where
  "legacyIds w =
     (case legacyFile w of
        None \<Rightarrow> None
      | Some f \<Rightarrow>
          if GetBoolean (content f) ''__Config__'' ''inited'' = Some True then None
          else GetStringList (content f) ''__Config__'' ''Position'')"

definition loadInput :: "World \<Rightarrow> string list" where
  "loadInput w = (case legacyIds w of None \<Rightarrow> persisted w | Some ids \<Rightarrow> ids)"

text \<open>Two runs of the migration, one after the other.\<close>

definition migrateTwice :: "DockedAppManager \<Rightarrow> World \<Rightarrow> fault + World" where
  "migrateTwice m w =
     (case handleOldConfigFile m w of
        Inl e \<Rightarrow> Inl e
      | Inr w1 \<Rightarrow> handleOldConfigFile m w1)"

section \<open>Package systeminfo: the probes\<close>

text \<open>
  A file as the probes see it: \<open>os.Stat\<close> reports that it does not exist, or
  \<open>ioutil.ReadFile\<close> fails on it, or it is read.
\<close>

datatype File = NotExist | ReadFails | Contents string

type_synonym FileSystem = "string \<Rightarrow> File"

definition VERSION_ETC :: string where "VERSION_ETC = ''/etc/lsb-release''"
definition VERSION_KEY :: string where "VERSION_KEY = ''DISTRIB_RELEASE''"
definition PROC_CPU_INFO :: string where "PROC_CPU_INFO = ''/proc/cpuinfo''"
definition PROC_CPU_KEY :: string where "PROC_CPU_KEY = ''model name''"
definition PROC_MEM_INFO :: string where "PROC_MEM_INFO = ''/proc/meminfo''"
definition PROC_MEM_KEY :: string where "PROC_MEM_KEY = ''MemTotal''"

definition IsFileNotExist :: "FileSystem \<Rightarrow> string \<Rightarrow> bool" where
  "IsFileNotExist fs filename = (fs filename = NotExist)"

definition ReadFile :: "FileSystem \<Rightarrow> string \<Rightarrow> string option" where
  "ReadFile fs filename = (case fs filename of Contents c \<Rightarrow> Some c | _ \<Rightarrow> None)"

text \<open>\<open>strings.Split\<close> for a separator of one byte, which is what the probes pass.\<close>

fun Split :: "string \<Rightarrow> char \<Rightarrow> string list" where
  "Split [] sep = [[]]"
| "Split (c # cs) sep =
     (if c = sep then [] # Split cs sep
      else (case Split cs sep of [] \<Rightarrow> [[c]] | p # ps \<Rightarrow> (c # p) # ps))"

fun HasPrefix :: "string \<Rightarrow> string \<Rightarrow> bool" where
  "HasPrefix s [] = True"
| "HasPrefix [] (p # ps) = False"
| "HasPrefix (c # cs) (p # ps) = (if c = p then HasPrefix cs ps else False)"

fun Contains :: "string \<Rightarrow> string \<Rightarrow> bool" where
  "Contains [] substr = HasPrefix [] substr"
| "Contains (c # cs) substr = (if HasPrefix (c # cs) substr then True else Contains cs substr)"

text \<open>White space as \<open>strings.Fields\<close> and \<open>strings.TrimSpace\<close> see it in ASCII text.\<close>

definition isSpace :: "char \<Rightarrow> bool" where
  "isSpace c = (c = CHR '' '' \<or> c = CHR 0x09 \<or> c = CHR 0x0A \<or> c = CHR 0x0B \<or> c = CHR 0x0C
                  \<or> c = CHR 0x0D)"

definition TrimSpace :: "string \<Rightarrow> string" where
  "TrimSpace s = rev (dropWhile isSpace (rev (dropWhile isSpace s)))"

fun fieldsLoop :: "string \<Rightarrow> string \<Rightarrow> string list" where
  "fieldsLoop cur [] = (if cur = [] then [] else [cur])"
| "fieldsLoop cur (c # cs) =
     (if isSpace c then (if cur = [] then fieldsLoop [] cs else cur # fieldsLoop [] cs)
      else fieldsLoop (cur @ [c]) cs)"

definition Fields :: "string \<Rightarrow> string list" where
  "Fields s = fieldsLoop [] s"

definition isDigit :: "char \<Rightarrow> bool" where
  "isDigit c = (48 \<le> (of_char c :: nat) \<and> (of_char c :: nat) \<le> 57)"

definition digitVal :: "char \<Rightarrow> nat" where
  "digitVal c = of_char c - 48"

text \<open>
  \<open>strconv.ParseUint(s, 10, 64)\<close> with its error dropped, as the caller drops it: 0 on a
  syntax error, the largest value on a range error, whichever the scan meets first.
\<close>

fun parseUintLoop :: "string \<Rightarrow> nat \<Rightarrow> 64 word" where
  "parseUintLoop [] n = of_nat n"
| "parseUintLoop (c # cs) n =
     (if \<not> isDigit c then 0
      else if 2 ^ 64 \<le> 10 * n + digitVal c then - 1
      else parseUintLoop cs (10 * n + digitVal c))"

definition ParseUint :: "string \<Rightarrow> 64 word" where
  "ParseUint s = (if s = [] then 0 else parseUintLoop s 0)"

fun decDigits :: "nat \<Rightarrow> string" where
  "decDigits n =
     (if n < 10 then [''0123456789'' ! n]
      else decDigits (n div 10) @ [''0123456789'' ! (n mod 10)])"

declare decDigits.simps [simp del]

definition FormatInt :: "int \<Rightarrow> string" where
  "FormatInt i = (if i < 0 then CHR ''-'' # decDigits (nat (- i)) else decDigits (nat i))"

fun versionLoop :: "string list \<Rightarrow> string" where
  "versionLoop [] = []"
| "versionLoop (line # lines) =
     (if Contains line VERSION_KEY then
        (let vars = Split line (CHR ''='') in
         if length vars < 2 then [] else vars ! 1)
      else versionLoop lines)"

definition GetVersion :: "FileSystem \<Rightarrow> string" where
  "GetVersion fs =
     (if IsFileNotExist fs VERSION_ETC then []
      else
        (case ReadFile fs VERSION_ETC of
           None \<Rightarrow> []
         | Some contents \<Rightarrow> versionLoop (Split contents (CHR 0x0A))))"

fun cpuLoop :: "string list \<Rightarrow> string \<Rightarrow> nat \<Rightarrow> string \<times> nat" where
  "cpuLoop [] info cnt = (info, cnt)"
| "cpuLoop (line # lines) info cnt =
     (if Contains line PROC_CPU_KEY then
        (let vars = Split line (CHR '':'') in
         if length vars < 2 then (info, cnt)
         else cpuLoop lines (if info = [] then info @ vars ! 1 else info) (cnt + 1))
      else cpuLoop lines info cnt)"

definition GetCpuInfo :: "FileSystem \<Rightarrow> string" where
  "GetCpuInfo fs =
     (if IsFileNotExist fs PROC_CPU_INFO then ''Unknown''
      else
        (case ReadFile fs PROC_CPU_INFO of
           None \<Rightarrow> []
         | Some contents \<Rightarrow>
             (case cpuLoop (Split contents (CHR 0x0A)) [] 0 of
                (info, cnt) \<Rightarrow> TrimSpace (info @ '' x '' @ FormatInt (int cnt)))))"

fun memLoop :: "string list \<Rightarrow> 64 word" where
  "memLoop [] = 0"
| "memLoop (line # lines) =
     (if Contains line PROC_MEM_KEY then
        (let fields = Fields line in
         if length fields < 2 then 0 else ParseUint (fields ! 1))
      else memLoop lines)"

definition GetMemoryCap :: "FileSystem \<Rightarrow> 64 word" where
  "GetMemoryCap fs =
     (if IsFileNotExist fs PROC_MEM_INFO then 0
      else
        (case ReadFile fs PROC_MEM_INFO of
           None \<Rightarrow> 0
         | Some contents \<Rightarrow> memLoop (Split contents (CHR 0x0A)) * 1024))"

section \<open>Example inputs\<close>

text \<open>A legacy file with the position list a, a, b and no flag (the spec's Scenario A).\<close>

definition exKeyFile :: KeyFile where
  "exKeyFile =
     \<lparr>GetBoolean = (\<lambda>g k. None),
      GetStringList =
        (\<lambda>g k. if g = ''__Config__'' \<and> k = ''Position'' then Some [''a'', ''a'', ''b''] else None),
      GetString = (\<lambda>g k. None)\<rparr>"

text \<open>A legacy file that loads and holds neither the flag nor a position list.\<close>

definition exEmptyKeyFile :: KeyFile where
  "exEmptyKeyFile =
     \<lparr>GetBoolean = (\<lambda>g k. None), GetStringList = (\<lambda>g k. None), GetString = (\<lambda>g k. None)\<rparr>"

text \<open>
  A world whose backend holds x, y, whose DockManager has x, y docked and resolves every
  id but \<open>ghost\<close>, and which has no legacy file (the spec's Scenario B, but for the flag).
\<close>

definition exWorld :: World where
  "exWorld =
     \<lparr>settingsAvailable = True, persisted = [''x'', ''y''], backendLog = [],
      legacyFile = None, toDataOk = True, writeFileOk = True, legacyLog = [],
      installed = (\<lambda>i. False), scratchFiles = [], signals = [],
      dockManager = \<lparr>dockedIds = [''x'', ''y''], resolvable = (\<lambda>i t ic c. i \<noteq> ''ghost'')\<rparr>\<rparr>"

definition exManager :: DockedAppManager where
  "exManager = \<lparr>settings = Some (SettingsHandle dockSchema), dockedAppList = [''x'', ''y'']\<rparr>"


definition exFs :: FileSystem where
  "exFs = (\<lambda>p. if p = ''/etc/lsb-release'' then ReadFails else NotExist)"

section \<open>Properties of the docked-application list manager\<close>

lemma isStrInSlice_set: "isStrInSlice s xs = (s \<in> set xs)"
  by (induction xs) auto

lemma strSliceEqual_eq: "strSliceEqual xs ys = (xs = ys)"
  by (induction xs ys rule: strSliceEqual.induct) auto

lemma filter_notin_snoc:
  "filter (\<lambda>y. y \<notin> set (acc @ [e])) es = filter (\<lambda>y. y \<noteq> e) (filter (\<lambda>y. y \<notin> set acc) es)"
  by (induction es) auto

lemma uniqLoop_firstOccurrences:
  "uniqLoop acc xs = acc @ firstOccurrences (filter (\<lambda>y. y \<notin> set acc) xs)"
proof (induction xs arbitrary: acc)
  case Nil
  show ?case by simp
next
  case (Cons e es)
  show ?case
  proof (cases "e \<in> set acc")
    case True
    then show ?thesis using Cons.IH [of acc] by (simp add: isStrInSlice_set)
  next
    case False
    then show ?thesis
      using Cons.IH [of "acc @ [e]"] filter_notin_snoc [of acc e es]
      by (simp add: isStrInSlice_set)
  qed
qed

lemma uniqStrSlice_firstOccurrences: "uniqStrSlice xs = firstOccurrences xs"
  by (simp add: uniqStrSlice_def uniqLoop_firstOccurrences)

lemma set_firstOccurrences: "set (firstOccurrences xs) = set xs"
  by (induction xs rule: firstOccurrences.induct) auto

lemma distinct_firstOccurrences: "distinct (firstOccurrences xs)"
  by (induction xs rule: firstOccurrences.induct) (auto simp: set_firstOccurrences)

lemma firstOccurrences_distinct_id: "distinct xs \<Longrightarrow> firstOccurrences xs = xs"
proof (induction xs)
  case Nil
  show ?case by simp
next
  case (Cons x xs)
  then have "filter (\<lambda>y. y \<noteq> x) xs = xs" by (auto intro: filter_True)
  with Cons show ?case by simp
qed

lemma firstOccurrences_idem: "firstOccurrences (firstOccurrences xs) = firstOccurrences xs"
  by (rule firstOccurrences_distinct_id) (rule distinct_firstOccurrences)


lemma migrateEntries_frame:
  "persisted (migrateEntries conf ids w) = persisted w \<and>
   backendLog (migrateEntries conf ids w) = backendLog w \<and>
   legacyFile (migrateEntries conf ids w) = legacyFile w \<and>
   toDataOk (migrateEntries conf ids w) = toDataOk w \<and>
   writeFileOk (migrateEntries conf ids w) = writeFileOk w \<and>
   settingsAvailable (migrateEntries conf ids w) = settingsAvailable w \<and>
   signals (migrateEntries conf ids w) = signals w \<and>
   dockManager (migrateEntries conf ids w) = dockManager w"
  by (induction ids arbitrary: w)
     (simp_all add: Let_def logLegacy_def createScratchDesktopFile_def)

lemma handleOldConfigFile_absent:
  "legacyFile w = None \<Longrightarrow> handleOldConfigFile m w = Inr (logLegacy OpLoadFromFile w)"
  by (simp add: handleOldConfigFile_def Let_def logLegacy_def)

lemma handleOldConfigFile_flag_set:
  "legacyFile w = Some f \<Longrightarrow> GetBoolean (content f) ''__Config__'' ''inited'' = Some True \<Longrightarrow>
   handleOldConfigFile m w =
     Inr (w\<lparr>legacyLog := legacyLog w @ [OpLoadFromFile, OpGetBoolean ''__Config__'' ''inited'']\<rparr>)"
  by (simp add: handleOldConfigFile_def Let_def logLegacy_def)

lemma handleOldConfigFile_no_ids:
  "legacyIds w = None \<Longrightarrow>
   \<exists>l. handleOldConfigFile m w = Inr (w\<lparr>legacyLog := l\<rparr>)"
  by (auto simp: handleOldConfigFile_def legacyIds_def Let_def logLegacy_def
           split: option.splits if_splits)

lemma handleOldConfigFile_ids:
  assumes "legacyIds w = Some ids" and "settings m = Some h"
  shows "\<exists>w1. handleOldConfigFile m w = Inr w1 \<and>
           persisted w1 = uniqStrSlice ids \<and>
           backendLog w1 =
             backendLog w @ [SetStrv settingKeyDockedApps (uniqStrSlice ids), SettingsSync] \<and>
           signals w1 = signals w \<and> dockManager w1 = dockManager w \<and>
           (legacyIds w1 = Some ids \<or> legacyIds w1 = None) \<and>
           (toDataOk w \<and> writeFileOk w \<longrightarrow> MigrationFlag w1 = Some True)"
  using assms
  by (auto simp: handleOldConfigFile_def legacyIds_def Let_def logLegacy_def saveAppList_def
                 WriteFile_def SetBoolean_def MigrationFlag_def migrateEntries_frame
           split: option.splits if_splits)

lemma handleOldConfigFile_ids_nil:
  assumes "legacyIds w = Some ids" and "settings m = None"
  shows "handleOldConfigFile m w = Inl NilSettingsHandle"
  using assms
  by (auto simp: handleOldConfigFile_def legacyIds_def Let_def logLegacy_def saveAppList_def
           split: option.splits if_splits)


lemma saveDockedAppList_same:
  "dockedAppList m = getDockedAppList (dockManager w) \<Longrightarrow> saveDockedAppList m w = Inr (m, w)"
  by (simp add: saveDockedAppList_def strSliceEqual_eq)

lemma saveDockedAppList_differs:
  "settings m = Some h \<Longrightarrow> dockedAppList m \<noteq> getDockedAppList (dockManager w) \<Longrightarrow>
   saveDockedAppList m w =
     Inr (m\<lparr>dockedAppList := getDockedAppList (dockManager w)\<rparr>,
          w\<lparr>persisted := getDockedAppList (dockManager w),
            backendLog := backendLog w @
              [SetStrv settingKeyDockedApps (getDockedAppList (dockManager w)), SettingsSync]\<rparr>)"
  by (simp add: saveDockedAppList_def strSliceEqual_eq saveAppList_def Let_def)

lemma saveDockedAppList_nil:
  "settings m = None \<Longrightarrow> dockedAppList m \<noteq> getDockedAppList (dockManager w) \<Longrightarrow>
   saveDockedAppList m w = Inl NilSettingsHandle"
  by (simp add: saveDockedAppList_def strSliceEqual_eq saveAppList_def Let_def)

lemma legacyIds_legacyLog [simp]: "legacyIds (w\<lparr>legacyLog := l\<rparr>) = legacyIds w"
  by (simp add: legacyIds_def)

lemma NewDockedAppManager_available:
  assumes "settingsAvailable w"
  shows "\<exists>m' w'. NewDockedAppManager w = Inr (m', w') \<and>
           settings m' = Some (SettingsHandle dockSchema) \<and>
           dockedAppList m' = firstOccurrences (loadInput w) \<and>
           persisted w' = firstOccurrences (loadInput w) \<and>
           backendLog w' =
             backendLog w @
             (case legacyIds w of
                None \<Rightarrow> []
              | Some ids \<Rightarrow> [SetStrv settingKeyDockedApps (uniqStrSlice ids), SettingsSync]) @
             [SetStrv settingKeyDockedApps (dockedAppList m'), SettingsSync] \<and>
           signals w' = signals w \<and> dockManager w' = dockManager w"
proof (cases "legacyIds w")
  case None
  from handleOldConfigFile_no_ids [OF None]
  obtain l where "handleOldConfigFile
      \<lparr>settings = Some (SettingsHandle dockSchema), dockedAppList = []\<rparr> w = Inr (w\<lparr>legacyLog := l\<rparr>)"
    by blast
  with assms None show ?thesis
    by (simp add: NewDockedAppManager_def init_def NewSettings_def Let_def saveAppList_def
          GetStrv_def loadInput_def uniqStrSlice_firstOccurrences)
next
  case (Some ids)
  from handleOldConfigFile_ids [OF Some, of
      "\<lparr>settings = Some (SettingsHandle dockSchema), dockedAppList = []\<rparr>" "SettingsHandle dockSchema"]
  obtain w1 where "handleOldConfigFile
      \<lparr>settings = Some (SettingsHandle dockSchema), dockedAppList = []\<rparr> w = Inr w1"
    and "persisted w1 = uniqStrSlice ids"
    and "backendLog w1 =
           backendLog w @ [SetStrv settingKeyDockedApps (uniqStrSlice ids), SettingsSync]"
    and "signals w1 = signals w" and "dockManager w1 = dockManager w"
    by auto
  with assms Some show ?thesis
    by (simp add: NewDockedAppManager_def init_def NewSettings_def Let_def saveAppList_def
          GetStrv_def loadInput_def uniqStrSlice_firstOccurrences firstOccurrences_idem)
qed

lemma NewDockedAppManager_unavailable:
  "\<not> settingsAvailable w \<Longrightarrow>
   NewDockedAppManager w = Inr (\<lparr>settings = None, dockedAppList = []\<rparr>, w)"
  by (simp add: NewDockedAppManager_def init_def NewSettings_def)


text \<open>
  C1 (as amended). Every sync made by \<open>saveDockedAppList\<close> on a manager that holds a
  settings handle writes the backend exactly when the cached list differs from the
  DockManager's current docked ids (compared in order, element by element): when they are
  equal nothing is written and nothing changes; when they differ there is exactly one
  \<open>SetStrv\<close> followed by the synchronous flush, and the persisted and the cached list
  become the DockManager's list. \<open>dockAppEntry\<close> (for an entry with a descriptor) and
  \<open>undockAppEntry\<close> make exactly one such sync. The save at startup is not such a sync:
  with a backend, construction writes the deduplicated loaded list once, after the write
  of the migration when that ran, whatever the DockManager holds.
\<close>

theorem sync_writes_iff_list_differs:
  assumes "settings m = Some h"
  shows "(dockedAppList m = getDockedAppList (dockManager w) \<longrightarrow>
            saveDockedAppList m w = Inr (m, w)) \<and>
         (dockedAppList m \<noteq> getDockedAppList (dockManager w) \<longrightarrow>
            saveDockedAppList m w =
              Inr (m\<lparr>dockedAppList := getDockedAppList (dockManager w)\<rparr>,
                   w\<lparr>persisted := getDockedAppList (dockManager w),
                     backendLog := backendLog w @
                       [SetStrv settingKeyDockedApps (getDockedAppList (dockManager w)),
                        SettingsSync]\<rparr>)) \<and>
         (\<exists>m' w'. dockAppEntry m \<lparr>appInfo = Some a\<rparr> w = Inr (True, m', w') \<and>
            backendLog w' = backendLog w @
              (if dockedAppList m = getDockedAppList (dockManager w) then []
               else [SetStrv settingKeyDockedApps (getDockedAppList (dockManager w)),
                     SettingsSync])) \<and>
         (\<exists>m' w'. undockAppEntry m appId w = Inr (True, m', w') \<and>
            backendLog w' = backendLog w @
              (if dockedAppList m = getDockedAppList (dockManager w) then []
               else [SetStrv settingKeyDockedApps (getDockedAppList (dockManager w)),
                     SettingsSync])) \<and>
         (settingsAvailable w \<longrightarrow>
            (\<exists>m' w'. NewDockedAppManager w = Inr (m', w') \<and>
               dockedAppList m' = uniqStrSlice (loadInput w) \<and>
               backendLog w' =
                 backendLog w @
                 (case legacyIds w of
                    None \<Rightarrow> []
                  | Some ids \<Rightarrow> [SetStrv settingKeyDockedApps (uniqStrSlice ids), SettingsSync]) @
                 [SetStrv settingKeyDockedApps (dockedAppList m'), SettingsSync]))"
proof (intro conjI impI)
  show "\<exists>m' w'. dockAppEntry m \<lparr>appInfo = Some a\<rparr> w = Inr (True, m', w') \<and>
          backendLog w' = backendLog w @
            (if dockedAppList m = getDockedAppList (dockManager w) then []
             else [SetStrv settingKeyDockedApps (getDockedAppList (dockManager w)), SettingsSync])"
    using assms saveDockedAppList_same [of m w] saveDockedAppList_differs [of m h w]
    by (cases "dockedAppList m = getDockedAppList (dockManager w)")
       (simp_all add: dockAppEntry_def emitSignal_def)
next
  show "\<exists>m' w'. undockAppEntry m appId w = Inr (True, m', w') \<and>
          backendLog w' = backendLog w @
            (if dockedAppList m = getDockedAppList (dockManager w) then []
             else [SetStrv settingKeyDockedApps (getDockedAppList (dockManager w)), SettingsSync])"
    using assms saveDockedAppList_same [of m w] saveDockedAppList_differs [of m h w]
    by (cases "dockedAppList m = getDockedAppList (dockManager w)")
       (simp_all add: undockAppEntry_def emitSignal_def)
next
  assume "dockedAppList m = getDockedAppList (dockManager w)"
  then show "saveDockedAppList m w = Inr (m, w)"
    by (rule saveDockedAppList_same)
next
  assume "dockedAppList m \<noteq> getDockedAppList (dockManager w)"
  with assms show "saveDockedAppList m w =
      Inr (m\<lparr>dockedAppList := getDockedAppList (dockManager w)\<rparr>,
           w\<lparr>persisted := getDockedAppList (dockManager w),
             backendLog := backendLog w @
               [SetStrv settingKeyDockedApps (getDockedAppList (dockManager w)), SettingsSync]\<rparr>)"
    by (rule saveDockedAppList_differs)
next
  assume "settingsAvailable w"
  from NewDockedAppManager_available [OF this]
  show "\<exists>m' w'. NewDockedAppManager w = Inr (m', w') \<and>
          dockedAppList m' = uniqStrSlice (loadInput w) \<and>
          backendLog w' =
            backendLog w @
            (case legacyIds w of
               None \<Rightarrow> []
             | Some ids \<Rightarrow> [SetStrv settingKeyDockedApps (uniqStrSlice ids), SettingsSync]) @
            [SetStrv settingKeyDockedApps (dockedAppList m'), SettingsSync]"
    by (auto simp: uniqStrSlice_firstOccurrences)
qed

text \<open>The sync with an unchanged list, with a changed list, and the startup save, on the example world.\<close>

theorem sync_writes_iff_list_differs_witness:
  "settings exManager = Some (SettingsHandle dockSchema) \<and>
   saveDockedAppList exManager exWorld = Inr (exManager, exWorld) \<and>
   dockedAppList exManager \<noteq> [''x'', ''y'', ''z''] \<and>
   saveDockedAppList exManager
       (exWorld\<lparr>dockManager := (dockManager exWorld)\<lparr>dockedIds := [''x'', ''y'', ''z'']\<rparr>\<rparr>) =
     Inr (exManager\<lparr>dockedAppList := [''x'', ''y'', ''z'']\<rparr>,
          exWorld\<lparr>dockManager := (dockManager exWorld)\<lparr>dockedIds := [''x'', ''y'', ''z'']\<rparr>,
                  persisted := [''x'', ''y'', ''z''],
                  backendLog := [SetStrv ''docked-apps'' [''x'', ''y'', ''z''], SettingsSync]\<rparr>) \<and>
   settingsAvailable exWorld \<and>
   (\<exists>m' w'. NewDockedAppManager exWorld = Inr (m', w') \<and> dockedAppList m' = [''x'', ''y''] \<and>
      backendLog w' = [SetStrv ''docked-apps'' [''x'', ''y''], SettingsSync])"
proof -
  have h: "settings exManager = Some (SettingsHandle dockSchema)"
    by (simp add: exManager_def)
  note a = sync_writes_iff_list_differs [OF h, of exWorld, THEN conjunct1]
  note b = sync_writes_iff_list_differs [OF h,
      of "exWorld\<lparr>dockManager := (dockManager exWorld)\<lparr>dockedIds := [''x'', ''y'', ''z'']\<rparr>\<rparr>",
      THEN conjunct2, THEN conjunct1]
  note c = sync_writes_iff_list_differs [OF h, of exWorld,
      THEN conjunct2, THEN conjunct2, THEN conjunct2, THEN conjunct2]
  have eq: "dockedAppList exManager = getDockedAppList (dockManager exWorld)"
    by (simp add: exManager_def exWorld_def getDockedAppList_def)
  have av: "settingsAvailable exWorld"
    by (simp add: exWorld_def)
  have li: "legacyIds exWorld = None" "loadInput exWorld = [''x'', ''y'']"
    by (simp_all add: legacyIds_def loadInput_def exWorld_def)
  have u: "uniqStrSlice [''x'', ''y''] = [''x'', ''y'']"
    by (simp add: uniqStrSlice_def)
  have c1: "saveDockedAppList exManager exWorld = Inr (exManager, exWorld)"
    using a eq by blast
  have c2: "\<exists>m' w'. NewDockedAppManager exWorld = Inr (m', w') \<and> dockedAppList m' = [''x'', ''y''] \<and>
      backendLog w' = [SetStrv ''docked-apps'' [''x'', ''y''], SettingsSync]"
    using c av li u by (auto simp: settingKeyDockedApps_def exWorld_def)
  have c3: "saveDockedAppList exManager
       (exWorld\<lparr>dockManager := (dockManager exWorld)\<lparr>dockedIds := [''x'', ''y'', ''z'']\<rparr>\<rparr>) =
     Inr (exManager\<lparr>dockedAppList := [''x'', ''y'', ''z'']\<rparr>,
          exWorld\<lparr>dockManager := (dockManager exWorld)\<lparr>dockedIds := [''x'', ''y'', ''z'']\<rparr>,
                  persisted := [''x'', ''y'', ''z''],
                  backendLog := [SetStrv ''docked-apps'' [''x'', ''y'', ''z''], SettingsSync]\<rparr>)"
    using b by (simp add: exManager_def exWorld_def getDockedAppList_def settingKeyDockedApps_def)
  show ?thesis
    using h c1 c2 c3 av by (simp add: exManager_def)
qed

text \<open>
  At startup the cached list equals the DockManager's list (x, y), and the backend is
  written all the same.
\<close>

theorem startup_write_counterexample:
  "NewDockedAppManager exWorld =
     Inr (exManager,
          exWorld\<lparr>backendLog := [SetStrv ''docked-apps'' [''x'', ''y''], SettingsSync],
                  legacyLog := [OpLoadFromFile]\<rparr>) \<and>
   dockedAppList exManager = getDockedAppList (dockManager exWorld)"
  by (simp add: NewDockedAppManager_def init_def NewSettings_def handleOldConfigFile_def
        logLegacy_def Let_def GetStrv_def saveAppList_def uniqStrSlice_def exWorld_def
        exManager_def getDockedAppList_def settingKeyDockedApps_def)

text \<open>
  C2 (as amended). When the legacy file is absent or unreadable, \<open>handleOldConfigFile\<close>
  takes it as nothing to migrate and returns without error after the failed load: it
  writes neither the settings backend nor the legacy store, and the migration flag is not
  set (there is still no legacy file to hold it).
\<close>

theorem migration_without_legacy_file:
  assumes "legacyFile w = None"
  shows "\<exists>w'. handleOldConfigFile m w = Inr w' \<and>
           w' = w\<lparr>legacyLog := legacyLog w @ [OpLoadFromFile]\<rparr> \<and>
           persisted w' = persisted w \<and> backendLog w' = backendLog w \<and>
           legacyFile w' = None \<and> MigrationFlag w' = None"
  using assms handleOldConfigFile_absent [OF assms, of m]
  by (simp add: logLegacy_def MigrationFlag_def)

theorem migration_without_legacy_file_witness:
  "legacyFile exWorld = None \<and>
   (\<exists>w'. handleOldConfigFile exManager exWorld = Inr w' \<and>
      persisted w' = [''x'', ''y''] \<and> backendLog w' = [] \<and> MigrationFlag w' = None)"
proof -
  have h: "legacyFile exWorld = None"
    by (simp add: exWorld_def)
  from migration_without_legacy_file [OF h, of exManager] h show ?thesis
    by (auto simp: exWorld_def)
qed

text \<open>After a migration run on a missing legacy file the persisted flag is not true.\<close>

theorem migration_flag_unset_counterexample:
  "legacyFile exWorld = None \<and>
   handleOldConfigFile exManager exWorld = Inr (exWorld\<lparr>legacyLog := [OpLoadFromFile]\<rparr>) \<and>
   MigrationFlag (exWorld\<lparr>legacyLog := [OpLoadFromFile]\<rparr>) \<noteq> Some True"
  by (simp add: handleOldConfigFile_def logLegacy_def Let_def MigrationFlag_def exWorld_def)

lemma MigrationFlag_true_iff:
  "MigrationFlag w = Some True \<longleftrightarrow>
   (\<exists>f. legacyFile w = Some f \<and> GetBoolean (content f) ''__Config__'' ''inited'' = Some True)"
  by (simp add: MigrationFlag_def split: option.splits)

lemma migrateTwice_persisted:
  assumes "handleOldConfigFile m w = Inr w1" and "handleOldConfigFile m w1 = Inr w2"
  shows "persisted w2 = persisted w1"
proof (cases "legacyIds w")
  case None
  from handleOldConfigFile_no_ids [OF None, of m] assms(1)
  obtain l where w1: "w1 = w\<lparr>legacyLog := l\<rparr>" by auto
  then have "legacyIds w1 = None" using None by simp
  from handleOldConfigFile_no_ids [OF this, of m] assms(2)
  show ?thesis by auto
next
  case (Some ids)
  show ?thesis
  proof (cases "settings m")
    case None
    from handleOldConfigFile_ids_nil [OF Some None] assms(1) show ?thesis by simp
  next
    case (Some h)
    from handleOldConfigFile_ids [OF \<open>legacyIds w = Some ids\<close> Some] assms(1)
    have p1: "persisted w1 = uniqStrSlice ids"
      and l1: "legacyIds w1 = Some ids \<or> legacyIds w1 = None"
      by auto
    from l1 show ?thesis
    proof
      assume "legacyIds w1 = Some ids"
      from handleOldConfigFile_ids [OF this Some] assms(2) p1 show ?thesis by auto
    next
      assume "legacyIds w1 = None"
      from handleOldConfigFile_no_ids [OF this, of m] assms(2) show ?thesis by auto
    qed
  qed
qed

text \<open>
  C3 (as amended). A migration that reads the flag as true returns at once: it writes
  neither the settings backend nor the legacy file, and reads the legacy store no further
  than the load and the flag. Two runs of the migration leave the same persisted list as
  one run. The second run reads no further than the flag whenever the first run left the
  flag persisted as true, which it does when it migrated and the write-back succeeded
  (file loaded, position list readable, serialisation and file write successful).
\<close>

theorem migration_idempotent:
  "(legacyFile w = Some f \<and> GetBoolean (content f) ''__Config__'' ''inited'' = Some True \<longrightarrow>
      handleOldConfigFile m w =
        Inr (w\<lparr>legacyLog :=
               legacyLog w @ [OpLoadFromFile, OpGetBoolean ''__Config__'' ''inited'']\<rparr>)) \<and>
   (handleOldConfigFile m w = Inr w1 \<and> migrateTwice m w = Inr w2 \<longrightarrow>
      persisted w2 = persisted w1) \<and>
   (handleOldConfigFile m w = Inr w1 \<and> MigrationFlag w1 = Some True \<longrightarrow>
      migrateTwice m w =
        Inr (w1\<lparr>legacyLog :=
                legacyLog w1 @ [OpLoadFromFile, OpGetBoolean ''__Config__'' ''inited'']\<rparr>)) \<and>
   (handleOldConfigFile m w = Inr w1 \<and> legacyIds w = Some ids \<and> toDataOk w \<and> writeFileOk w \<longrightarrow>
      MigrationFlag w1 = Some True)"
proof (intro conjI impI)
  assume "legacyFile w = Some f \<and> GetBoolean (content f) ''__Config__'' ''inited'' = Some True"
  then show "handleOldConfigFile m w =
      Inr (w\<lparr>legacyLog := legacyLog w @ [OpLoadFromFile, OpGetBoolean ''__Config__'' ''inited'']\<rparr>)"
    by (simp add: handleOldConfigFile_flag_set)
next
  assume "handleOldConfigFile m w = Inr w1 \<and> migrateTwice m w = Inr w2"
  then show "persisted w2 = persisted w1"
    by (auto simp: migrateTwice_def intro: migrateTwice_persisted)
next
  assume a: "handleOldConfigFile m w = Inr w1 \<and> MigrationFlag w1 = Some True"
  then obtain f where "legacyFile w1 = Some f"
    and "GetBoolean (content f) ''__Config__'' ''inited'' = Some True"
    by (auto simp: MigrationFlag_true_iff)
  from handleOldConfigFile_flag_set [OF this, of m] a
  show "migrateTwice m w =
      Inr (w1\<lparr>legacyLog := legacyLog w1 @ [OpLoadFromFile, OpGetBoolean ''__Config__'' ''inited'']\<rparr>)"
    by (simp add: migrateTwice_def)
next
  assume a: "handleOldConfigFile m w = Inr w1 \<and> legacyIds w = Some ids \<and> toDataOk w \<and> writeFileOk w"
  show "MigrationFlag w1 = Some True"
  proof (cases "settings m")
    case None
    with a handleOldConfigFile_ids_nil [of w ids m] show ?thesis by simp
  next
    case (Some h)
    with a handleOldConfigFile_ids [of w ids m h] show ?thesis by auto
  qed
qed

text \<open>
  The spec's Scenario A (legacy ids a, a, b, flag unset), run twice: the first run
  persists a, b and sets the flag, the second reads the flag and stops.
\<close>

theorem migration_idempotent_witness:
  "(\<exists>w1. handleOldConfigFile exManager
            (exWorld\<lparr>legacyFile := Some \<lparr>content = exKeyFile, mode = 420\<rparr>\<rparr>) = Inr w1 \<and>
      persisted w1 = [''a'', ''b''] \<and> MigrationFlag w1 = Some True \<and>
      migrateTwice exManager (exWorld\<lparr>legacyFile := Some \<lparr>content = exKeyFile, mode = 420\<rparr>\<rparr>) =
        Inr (w1\<lparr>legacyLog :=
                legacyLog w1 @ [OpLoadFromFile, OpGetBoolean ''__Config__'' ''inited'']\<rparr>) \<and>
      handleOldConfigFile exManager w1 =
        Inr (w1\<lparr>legacyLog :=
                legacyLog w1 @ [OpLoadFromFile, OpGetBoolean ''__Config__'' ''inited'']\<rparr>))"
proof -
  let ?w = "exWorld\<lparr>legacyFile := Some \<lparr>content = exKeyFile, mode = 420\<rparr>\<rparr>"
  have ids: "legacyIds ?w = Some [''a'', ''a'', ''b'']"
    by (simp add: legacyIds_def exKeyFile_def)
  have ok: "toDataOk ?w" "writeFileOk ?w"
    by (simp_all add: exWorld_def)
  have s: "settings exManager = Some (SettingsHandle dockSchema)"
    by (simp add: exManager_def)
  from handleOldConfigFile_ids [OF ids s]
  obtain w1 where r: "handleOldConfigFile exManager ?w = Inr w1"
    and p: "persisted w1 = uniqStrSlice [''a'', ''a'', ''b'']"
    by auto
  have fl: "MigrationFlag w1 = Some True"
    using migration_idempotent [of ?w _ exManager w1 _ "[''a'', ''a'', ''b'']"] r ids ok by blast
  have tw: "migrateTwice exManager ?w =
      Inr (w1\<lparr>legacyLog := legacyLog w1 @ [OpLoadFromFile, OpGetBoolean ''__Config__'' ''inited'']\<rparr>)"
    using migration_idempotent [of ?w _ exManager w1] r fl by blast
  have u: "uniqStrSlice [''a'', ''a'', ''b''] = [''a'', ''b'']"
    by (simp add: uniqStrSlice_def)
  from r p fl tw u show ?thesis
    by (auto simp: migrateTwice_def)
qed

text \<open>
  A legacy file that loads and holds neither the flag nor the position list: the first
  run returns without setting the flag, and the second run reads the position list again.
\<close>

theorem second_run_reads_counterexample:
  "map_sum id legacyLog
     (migrateTwice exManager
        (exWorld\<lparr>legacyFile := Some \<lparr>content = exEmptyKeyFile, mode = 420\<rparr>\<rparr>)) =
   Inr [OpLoadFromFile, OpGetBoolean ''__Config__'' ''inited'',
        OpGetStringList ''__Config__'' ''Position'',
        OpLoadFromFile, OpGetBoolean ''__Config__'' ''inited'',
        OpGetStringList ''__Config__'' ''Position'']"
  by (simp add: migrateTwice_def handleOldConfigFile_def logLegacy_def Let_def
        exEmptyKeyFile_def exWorld_def)



lemma requestDock_False:
  assumes "requestDock ident title icon cmd m w = Inr (False, m', w')"
  shows "m' = m \<and> w' = w"
  using assms
  by (auto simp: requestDock_def dockAppEntry_def Let_def split: if_splits sum.splits)

lemma undockEntryByAppId_False:
  assumes "undockEntryByAppId ident m w = Inr (False, m', w')"
  shows "m' = m \<and> w' = w"
  using assms
  by (auto simp: undockEntryByAppId_def undockAppEntry_def Let_def split: if_splits sum.splits)

text \<open>
  C5. When \<open>RequestDock\<close> or \<open>RequestUndock\<close> returns false, the manager (its cached list)
  and the world (the persisted sequence, the calls made on the backend, the signals
  emitted) are what they were before the request. In the manager's own methods:
  \<open>dockAppEntry\<close> returns false only for an entry without descriptor, before any sync or
  signal, and \<open>undockAppEntry\<close> never returns false.
\<close>

theorem failed_request_changes_nothing:
  "(RequestDock m ident title icon cmd w = Inr (False, m', w') \<longrightarrow> m' = m \<and> w' = w) \<and>
   (RequestUndock m ident w = Inr (False, m', w') \<longrightarrow> m' = m \<and> w' = w) \<and>
   (dockAppEntry m entry w = Inr (False, m', w') \<longrightarrow> m' = m \<and> w' = w \<and> appInfo entry = None) \<and>
   undockAppEntry m ident w \<noteq> Inr (False, m', w')"
proof (intro conjI impI)
  assume "RequestDock m ident title icon cmd w = Inr (False, m', w')"
  then show "m' = m" and "w' = w"
    using requestDock_False [of ident title icon cmd m w m' w'] by (simp_all add: RequestDock_def)
next
  assume "RequestUndock m ident w = Inr (False, m', w')"
  then show "m' = m" and "w' = w"
    using undockEntryByAppId_False [of ident m w m' w'] by (simp_all add: RequestUndock_def)
next
  assume "dockAppEntry m entry w = Inr (False, m', w')"
  then show "m' = m" and "w' = w" and "appInfo entry = None"
    by (auto simp: dockAppEntry_def split: option.splits sum.splits)
next
  show "undockAppEntry m ident w \<noteq> Inr (False, m', w')"
    by (auto simp: undockAppEntry_def split: sum.splits)
qed

text \<open>
  A dock request for an id the DockManager cannot resolve, and the spec's Scenario D (an
  undock request for an id that is not docked): both return false and change nothing.
\<close>

theorem failed_request_changes_nothing_witness:
  "RequestDock exManager ''ghost'' [] [] [] exWorld = Inr (False, exManager, exWorld) \<and>
   RequestUndock exManager ''nonexistent'' exWorld = Inr (False, exManager, exWorld) \<and>
   dockAppEntry exManager \<lparr>appInfo = None\<rparr> exWorld = Inr (False, exManager, exWorld)"
proof -
  obtain m1 w1 where r1: "RequestDock exManager ''ghost'' [] [] [] exWorld = Inr (False, m1, w1)"
    by (simp add: RequestDock_def requestDock_def dockAppEntry_def Let_def exWorld_def)
  obtain m2 w2 where r2: "RequestUndock exManager ''nonexistent'' exWorld = Inr (False, m2, w2)"
    by (simp add: RequestUndock_def undockEntryByAppId_def Let_def exWorld_def)
  obtain m3 w3 where
    r3: "dockAppEntry exManager \<lparr>appInfo = None\<rparr> exWorld = Inr (False, m3, w3)"
    by (simp add: dockAppEntry_def)
  from failed_request_changes_nothing
    [where m = exManager and ident = "''ghost''" and title = "[]" and icon = "[]" and cmd = "[]"
       and w = exWorld and m' = m1 and w' = w1] r1
  have "m1 = exManager \<and> w1 = exWorld" by blast
  moreover
  from failed_request_changes_nothing
    [where m = exManager and ident = "''nonexistent''" and w = exWorld and m' = m2 and w' = w2] r2
  have "m2 = exManager \<and> w2 = exWorld" by blast
  moreover
  from failed_request_changes_nothing
    [where m = exManager and entry = "\<lparr>appInfo = None\<rparr>" and w = exWorld and m' = m3
       and w' = w3] r3
  have "m3 = exManager \<and> w3 = exWorld" by blast
  ultimately show ?thesis
    using r1 r2 r3 by simp
qed

lemma saveDockedAppList_signals:
  "saveDockedAppList m w = Inr (m', w') \<Longrightarrow> signals w' = signals w"
  by (auto simp: saveDockedAppList_def saveAppList_def Let_def
           split: if_splits option.splits sum.splits)

text \<open>
  C6. An undock request for an id that is not docked returns false and changes nothing, so
  it emits no signal. A request that returns emits exactly one \<open>Undocked\<close> signal, for the
  requested id, when it returns true, and none when it returns false.
\<close>

theorem undock_of_undocked_id_fails:
  "(ident \<notin> set (getDockedAppList (dockManager w)) \<longrightarrow>
      RequestUndock m ident w = Inr (False, m, w)) \<and>
   (RequestUndock m ident w = Inr (b, m', w') \<longrightarrow>
      signals w' = signals w @ (if b then [(''Undocked'', [ident])] else []))"
proof (intro conjI impI)
  assume "ident \<notin> set (getDockedAppList (dockManager w))"
  then show "RequestUndock m ident w = Inr (False, m, w)"
    by (simp add: RequestUndock_def undockEntryByAppId_def getDockedAppList_def
          isStrInSlice_set Let_def)
next
  assume a: "RequestUndock m ident w = Inr (b, m', w')"
  show "signals w' = signals w @ (if b then [(''Undocked'', [ident])] else [])"
  proof (cases "isStrInSlice ident (dockedIds (dockManager w))")
    case False
    with a show ?thesis
      by (auto simp: RequestUndock_def undockEntryByAppId_def Let_def)
  next
    case True
    with a show ?thesis
      by (auto simp: RequestUndock_def undockEntryByAppId_def undockAppEntry_def Let_def
            emitSignal_def split: sum.splits dest!: saveDockedAppList_signals)
  qed
qed

text \<open>An undock of an id that is not docked, and an undock of the docked id x.\<close>

theorem undock_of_undocked_id_fails_witness:
  "''nonexistent'' \<notin> set (getDockedAppList (dockManager exWorld)) \<and>
   RequestUndock exManager ''nonexistent'' exWorld = Inr (False, exManager, exWorld) \<and>
   (\<exists>m' w'. RequestUndock exManager ''x'' exWorld = Inr (True, m', w') \<and>
      signals w' = [(''Undocked'', [''x''])])"
proof -
  have n: "''nonexistent'' \<notin> set (getDockedAppList (dockManager exWorld))"
    by (simp add: getDockedAppList_def exWorld_def)
  obtain m' w' where r: "RequestUndock exManager ''x'' exWorld = Inr (True, m', w')"
    by (simp add: RequestUndock_def undockEntryByAppId_def undockAppEntry_def Let_def
          saveDockedAppList_def saveAppList_def getDockedAppList_def exWorld_def exManager_def)
  have s: "signals exWorld = []"
    by (simp add: exWorld_def)
  from undock_of_undocked_id_fails [of "''nonexistent''" exWorld exManager] n
  have c1: "RequestUndock exManager ''nonexistent'' exWorld = Inr (False, exManager, exWorld)"
    by blast
  from undock_of_undocked_id_fails [of "''x''" exWorld exManager True m' w'] r s
  have c2: "signals w' = [(''Undocked'', [''x''])]"
    by simp
  from n c1 c2 r show ?thesis by blast
qed

text \<open>
  C7. \<open>IsDocked\<close> is a membership test on the cached list: it is true exactly for the ids
  that occur in it. It takes the manager alone and returns a truth value alone, so it
  reads neither the DockManager nor the backend and changes nothing; of the manager it
  reads only the cached list, not the settings handle.
\<close>

theorem IsDocked_membership:
  "IsDocked m appId = (appId \<in> set (DockedAppList m)) \<and>
   IsDocked (m\<lparr>settings := s\<rparr>) appId = IsDocked m appId"
  by (simp add: IsDocked_def DockedAppList_def isStrInSlice_set)


text \<open>
  C10. The deprecated methods \<open>Dock\<close> and \<open>ReqeustDock\<close> return what \<open>RequestDock\<close>
  returns on the same arguments (the result, the manager and the world after the call,
  signals included), and \<open>Undock\<close> returns what \<open>RequestUndock\<close> returns.
\<close>

theorem deprecated_aliases:
  "Dock m ident title icon cmd w = RequestDock m ident title icon cmd w \<and>
   ReqeustDock m ident title icon cmd w = RequestDock m ident title icon cmd w \<and>
   Undock m ident w = RequestUndock m ident w"
  by (simp add: Dock_def ReqeustDock_def Undock_def)

subsection \<open>Further properties of the manager\<close>

lemma saveDockedAppList_result:
  assumes "saveDockedAppList m w = Inr (m', w')"
  shows "dockedAppList m' = getDockedAppList (dockManager w) \<and> dockManager w' = dockManager w \<and>
         settings m' = settings m \<and>
         (persisted w = dockedAppList m \<longrightarrow> persisted w' = dockedAppList m')"
  using assms
  by (auto simp: saveDockedAppList_def saveAppList_def strSliceEqual_eq Let_def
           split: if_splits option.splits)

text \<open>
  Without a backend, construction gives the manager with the nil handle and the empty
  list, and touches nothing: no call on the backend, no access to the legacy store.
  \<open>IsDocked\<close> is then false for every id, and a sync that finds the DockManager's list
  equal to the cached one completes without using the handle.
\<close>

theorem construction_without_backend:
  assumes "\<not> settingsAvailable w"
  shows "\<exists>m'. NewDockedAppManager w = Inr (m', w) \<and> settings m' = None \<and>
           DockedAppList m' = [] \<and> \<not> IsDocked m' appId \<and>
           (getDockedAppList (dockManager w) = [] \<longrightarrow> saveDockedAppList m' w = Inr (m', w))"
  using NewDockedAppManager_unavailable [OF assms]
  by (simp add: DockedAppList_def IsDocked_def saveDockedAppList_same)

theorem construction_without_backend_witness:
  "\<not> settingsAvailable (exWorld\<lparr>settingsAvailable := False, dockManager := \<lparr>dockedIds = [],
       resolvable = (\<lambda>i t ic c. True)\<rparr>\<rparr>) \<and>
   (\<exists>m'. NewDockedAppManager (exWorld\<lparr>settingsAvailable := False, dockManager := \<lparr>dockedIds = [],
       resolvable = (\<lambda>i t ic c. True)\<rparr>\<rparr>) =
        Inr (m', exWorld\<lparr>settingsAvailable := False, dockManager := \<lparr>dockedIds = [],
       resolvable = (\<lambda>i t ic c. True)\<rparr>\<rparr>) \<and>
      DockedAppList m' = [] \<and> \<not> IsDocked m' ''x'' \<and>
      saveDockedAppList m' (exWorld\<lparr>settingsAvailable := False, dockManager := \<lparr>dockedIds = [],
       resolvable = (\<lambda>i t ic c. True)\<rparr>\<rparr>) =
        Inr (m', exWorld\<lparr>settingsAvailable := False, dockManager := \<lparr>dockedIds = [],
       resolvable = (\<lambda>i t ic c. True)\<rparr>\<rparr>))"
proof -
  let ?w = "exWorld\<lparr>settingsAvailable := False, dockManager := \<lparr>dockedIds = [],
       resolvable = (\<lambda>i t ic c. True)\<rparr>\<rparr>"
  have n: "\<not> settingsAvailable ?w" by simp
  have d: "getDockedAppList (dockManager ?w) = []" by (simp add: getDockedAppList_def)
  from construction_without_backend [OF n, of "''x''"] d n show ?thesis
    by auto
qed

text \<open>
  The spec's Scenario C. On a manager with a settings handle whose cached list is the
  persisted one, a dock request for an id that is not docked and that the DockManager
  resolves returns true; afterwards the cached and the persisted list are the
  DockManager's previous list with the id appended, \<open>IsDocked\<close> holds of the id, and
  exactly one \<open>Docked\<close> signal, for that id, has been emitted.
\<close>

theorem accepted_dock_request:
  assumes "settings m = Some h" and "persisted w = dockedAppList m"
    and "ident \<notin> set (getDockedAppList (dockManager w))"
    and "resolvable (dockManager w) ident title icon cmd"
  shows "\<exists>m' w'. RequestDock m ident title icon cmd w = Inr (True, m', w') \<and>
           DockedAppList m' = getDockedAppList (dockManager w) @ [ident] \<and>
           persisted w' = DockedAppList m' \<and> IsDocked m' ident \<and>
           signals w' = signals w @ [(''Docked'', [ident])]"
proof -
  let ?w1 = "w\<lparr>dockManager := (dockManager w)\<lparr>dockedIds := dockedIds (dockManager w) @ [ident]\<rparr>\<rparr>"
  have r: "RequestDock m ident title icon cmd w =
      dockAppEntry m \<lparr>appInfo = Some (AppInfo ident)\<rparr> ?w1"
    using assms(3,4)
    by (simp add: RequestDock_def requestDock_def Let_def isStrInSlice_set getDockedAppList_def)
  show ?thesis
  proof (cases "dockedAppList m = getDockedAppList (dockManager ?w1)")
    case True
    from saveDockedAppList_same [OF True] r True assms(2) show ?thesis
      by (simp add: dockAppEntry_def emitSignal_def DockedAppList_def IsDocked_def
            isStrInSlice_set getDockedAppList_def)
  next
    case False
    from saveDockedAppList_differs [OF assms(1) False] r show ?thesis
      by (simp add: dockAppEntry_def emitSignal_def DockedAppList_def IsDocked_def
            isStrInSlice_set getDockedAppList_def)
  qed
qed

theorem accepted_dock_request_witness:
  "settings exManager = Some (SettingsHandle dockSchema) \<and>
   persisted exWorld = dockedAppList exManager \<and>
   ''z'' \<notin> set (getDockedAppList (dockManager exWorld)) \<and>
   resolvable (dockManager exWorld) ''z'' ''Z App'' ''icon.png'' ''/usr/bin/z'' \<and>
   (\<exists>m' w'. RequestDock exManager ''z'' ''Z App'' ''icon.png'' ''/usr/bin/z'' exWorld =
        Inr (True, m', w') \<and>
      DockedAppList m' = [''x'', ''y'', ''z''] \<and> persisted w' = [''x'', ''y'', ''z''] \<and>
      IsDocked m' ''z'' \<and> signals w' = [(''Docked'', [''z''])])"
proof -
  have a: "settings exManager = Some (SettingsHandle dockSchema)"
    and b: "persisted exWorld = dockedAppList exManager"
    and c: "''z'' \<notin> set (getDockedAppList (dockManager exWorld))"
    and d: "resolvable (dockManager exWorld) ''z'' ''Z App'' ''icon.png'' ''/usr/bin/z''"
    by (simp_all add: exManager_def exWorld_def getDockedAppList_def)
  have e: "getDockedAppList (dockManager exWorld) = [''x'', ''y'']" "signals exWorld = []"
    by (simp_all add: exWorld_def getDockedAppList_def)
  from accepted_dock_request [OF a b c d] a b c d e show ?thesis
    by auto
qed

text \<open>
  Requests keep the lists free of duplicates: when neither the DockManager's docked ids
  nor the cached list hold an id twice, the same is true after a dock or undock request
  that returns.
\<close>

theorem requests_keep_lists_distinct:
  assumes "distinct (getDockedAppList (dockManager w))" and "distinct (DockedAppList m)"
  shows "(RequestDock m ident title icon cmd w = Inr (b, m', w') \<longrightarrow>
            distinct (DockedAppList m') \<and> distinct (getDockedAppList (dockManager w'))) \<and>
         (RequestUndock m ident w = Inr (b, m', w') \<longrightarrow>
            distinct (DockedAppList m') \<and> distinct (getDockedAppList (dockManager w')))"
proof (intro conjI impI)
  assume "RequestDock m ident title icon cmd w = Inr (b, m', w')"
  then show "distinct (DockedAppList m')" and "distinct (getDockedAppList (dockManager w'))"
    using assms
    by (auto simp: RequestDock_def requestDock_def dockAppEntry_def Let_def emitSignal_def
          isStrInSlice_set DockedAppList_def getDockedAppList_def
          split: if_splits sum.splits dest!: saveDockedAppList_result)
next
  assume "RequestUndock m ident w = Inr (b, m', w')"
  then show "distinct (DockedAppList m')" and "distinct (getDockedAppList (dockManager w'))"
    using assms
    by (auto simp: RequestUndock_def undockEntryByAppId_def undockAppEntry_def Let_def
          emitSignal_def isStrInSlice_set DockedAppList_def getDockedAppList_def
          split: if_splits sum.splits dest!: saveDockedAppList_result)
qed

theorem requests_keep_lists_distinct_witness:
  "distinct (getDockedAppList (dockManager exWorld)) \<and> distinct (DockedAppList exManager) \<and>
   (\<exists>m' w'. RequestUndock exManager ''x'' exWorld = Inr (True, m', w') \<and>
      distinct (DockedAppList m') \<and> distinct (getDockedAppList (dockManager w')))"
proof -
  have a: "distinct (getDockedAppList (dockManager exWorld))"
    and b: "distinct (DockedAppList exManager)"
    by (simp_all add: exWorld_def exManager_def getDockedAppList_def DockedAppList_def)
  obtain m' w' where r: "RequestUndock exManager ''x'' exWorld = Inr (True, m', w')"
    by (simp add: RequestUndock_def undockEntryByAppId_def undockAppEntry_def Let_def
          saveDockedAppList_def saveAppList_def getDockedAppList_def exWorld_def exManager_def)
  from requests_keep_lists_distinct [OF a b, of "''x''" _ _ _ True m' w'] r a b show ?thesis
    by blast
qed

section \<open>Properties of the probes\<close>

text \<open>
  C9 (as amended). A probe whose file is missing or cannot be read returns without error:
  \<open>GetVersion\<close> the empty string and \<open>GetMemoryCap\<close> 0 in both cases; \<open>GetCpuInfo\<close> the
  string \<open>Unknown\<close> when the file does not exist, and the empty string when it exists and
  cannot be read.
\<close>

theorem probes_without_input:
  "(fs VERSION_ETC = NotExist \<or> fs VERSION_ETC = ReadFails \<longrightarrow> GetVersion fs = []) \<and>
   (fs PROC_CPU_INFO = NotExist \<longrightarrow> GetCpuInfo fs = ''Unknown'') \<and>
   (fs PROC_CPU_INFO = ReadFails \<longrightarrow> GetCpuInfo fs = []) \<and>
   (fs PROC_MEM_INFO = NotExist \<or> fs PROC_MEM_INFO = ReadFails \<longrightarrow> GetMemoryCap fs = 0)"
  by (auto simp: GetVersion_def GetCpuInfo_def GetMemoryCap_def IsFileNotExist_def ReadFile_def)

text \<open>A system where \<open>/etc/lsb-release\<close> cannot be read and the \<open>/proc\<close> files do not exist.\<close>

theorem probes_without_input_witness:
  "exFs VERSION_ETC = ReadFails \<and> exFs PROC_CPU_INFO = NotExist \<and> exFs PROC_MEM_INFO = NotExist \<and>
   GetVersion exFs = [] \<and> GetCpuInfo exFs = ''Unknown'' \<and> GetMemoryCap exFs = 0"
proof -
  have f: "exFs VERSION_ETC = ReadFails" "exFs PROC_CPU_INFO = NotExist"
    "exFs PROC_MEM_INFO = NotExist"
    by (simp_all add: exFs_def VERSION_ETC_def PROC_CPU_INFO_def PROC_MEM_INFO_def)
  from probes_without_input [of exFs] f show ?thesis
    by simp
qed

text \<open>With no \<open>/proc/cpuinfo\<close>, \<open>GetCpuInfo\<close> returns a string that is not empty.\<close>

theorem cpu_info_unknown_counterexample:
  "exFs PROC_CPU_INFO = NotExist \<and> GetCpuInfo exFs = ''Unknown'' \<and> GetCpuInfo exFs \<noteq> []"
  by (simp add: GetCpuInfo_def IsFileNotExist_def exFs_def PROC_CPU_INFO_def)

end
